theory Spec2Isabelle
  imports Main
begin

section \<open>The caching proxy server\<close>

text \<open>
  A shallow embedding of the Express server: the in-memory response cache, the cache
  middleware, the client factory, the six cached route handlers, the health route and
  the cache-clear route. One call of \<open>app\<close> is one request/response exchange that runs
  without another exchange interleaved; the store is passed in and returned.
\<close>

subsection \<open>Values, requests, responses\<close>

text \<open>A JSON value: what \<open>res.json\<close> is given and what the store keeps as \<open>data\<close>.\<close>

datatype json =
  JNull
| JBool bool
| JNum int
| JStr string
| JArr "json list"
| JObj "(string \<times> json) list"

text \<open>
  The fields of Express's \<open>req\<close> that the server reads. A missing property
  (\<open>undefined\<close>) is \<open>None\<close>. Query and header values are strings here. The handlers
  read the properties \<open>espnS2\<close> and \<open>SWID\<close> of \<open>req.headers\<close>; how the HTTP layer
  fills that object is outside the model.
\<close>

record request =
  originalUrl :: string
  params :: "string \<rightharpoonup> string"
  query :: "string \<rightharpoonup> string"
  headers :: "string \<rightharpoonup> string"

text \<open>What is sent: the status set by \<open>res.status\<close> (200 when it is not called) and the body.\<close>

record response =
  status :: nat
  body :: json

text \<open>JavaScript's \<open>!v\<close> on a value that is \<open>undefined\<close> or a string.\<close>

definition falsy :: "string option \<Rightarrow> bool" where
  "falsy v = (case v of None \<Rightarrow> True | Some s \<Rightarrow> s = [])"

subsection \<open>What the server takes from outside\<close>

text \<open>
  The built-ins the handlers call. \<open>parseInt\<close> returns \<open>None\<close> for NaN;
  \<open>toISOString\<close> formats a time in milliseconds.
\<close>

record builtins =
  parseInt :: "string \<Rightarrow> int option"
  toISOString :: "int \<Rightarrow> string"

text \<open>\<open>parseInt\<close> of a property that may be \<open>undefined\<close>: NaN there.\<close>

definition parseIntOf :: "builtins \<Rightarrow> string option \<Rightarrow> int option" where
  "parseIntOf B v = (case v of None \<Rightarrow> None | Some s \<Rightarrow> parseInt B s)"

text \<open>The configuration object handed to \<open>new Client\<close>; an unset property is \<open>None\<close>.\<close>

record config =
  leagueId :: "int option"
  espnS2 :: "string option"
  SWID :: "string option"

text \<open>The methods of the upstream client that the handlers call, with their arguments.\<close>

datatype upcall =
  getLeagueInfo "int option"
| getTeamsAtWeek "int option" "int option"
| getBoxscoreForWeek "int option" "int option" "int option"
| getFreeAgents "int option" "int option"
| getDraftInfo "int option"
| getNFLGamesForPeriod "string option" "string option"

text \<open>
  The \<open>Client\<close> class is required from \<open>./node\<close> and is a parameter of the model:
  a call on a client built from a configuration either throws an error with a message
  (\<open>Inl\<close>) or resolves to a payload (\<open>Inr\<close>).
\<close>

type_synonym client = "config \<Rightarrow> upcall \<Rightarrow> string + json"

subsection \<open>The cache\<close>

record entry =
  data :: json
  timestamp :: int

type_synonym cache = "string \<rightharpoonup> entry"

definition CACHE_DURATION :: int where
  "CACHE_DURATION = 10 * 60 * 1000"

text \<open>
  A handler's run: the response it sends through \<open>res.json\<close> and the upstream calls it
  made, in order.
\<close>

type_synonym handled = "response \<times> (config \<times> upcall) list"

text \<open>
  One exchange: the response sent, the upstream calls made, whether the route handler
  ran, and the store afterwards.
\<close>

record exchange =
  sent :: response
  upstream :: "(config \<times> upcall) list"
  handlerRan :: bool
  store :: cache

text \<open>
  The function the middleware installs as \<open>res.json\<close>: it stores the body under the key
  with the time of the call, then sends the body with the original \<open>res.json\<close>.
\<close>

definition patched_json :: "string \<Rightarrow> json \<Rightarrow> int \<Rightarrow> cache \<Rightarrow> cache" where
  "patched_json key b now cache = cache(key \<mapsto> \<lparr>data = b, timestamp = now\<rparr>)"

text \<open>
  The middleware's second half: \<open>res.json\<close> is replaced and \<open>next()\<close> runs the handler.
  \<open>now'\<close> is \<open>Date.now()\<close> when the handler calls the installed \<open>res.json\<close>; every
  handler of the server calls \<open>res.json\<close> once on each of its paths.
\<close>

definition proceed ::
  "string \<Rightarrow> (request \<Rightarrow> handled) \<Rightarrow> request \<Rightarrow> int \<Rightarrow> cache \<Rightarrow> exchange" where
  "proceed key next req now' cache =
     (case next req of
        (r, calls) \<Rightarrow>
          \<lparr>sent = r, upstream = calls, handlerRan = True,
           store = patched_json key (body r) now' cache\<rparr>)"

text \<open>
  The middleware around a handler \<open>next\<close>. \<open>now\<close> is \<open>Date.now()\<close> at the lookup. The
  test is \<open>cached && Date.now() - cached.timestamp < duration\<close>.
\<close>

definition cacheMiddleware ::
  "int \<Rightarrow> (request \<Rightarrow> handled) \<Rightarrow> request \<Rightarrow> int \<Rightarrow> int \<Rightarrow> cache \<Rightarrow> exchange" where
  "cacheMiddleware duration next req now now' cache =
     (let key = originalUrl req
      in case cache key of
           Some cached \<Rightarrow>
             if now - timestamp cached < duration then
               \<lparr>sent = \<lparr>status = 200, body = data cached\<rparr>, upstream = [],
                handlerRan = False, store = cache\<rparr>
             else proceed key next req now' cache
         | None \<Rightarrow> proceed key next req now' cache)"

subsection \<open>The client factory\<close>

definition createClient ::
  "builtins \<Rightarrow> string option \<Rightarrow> string option \<Rightarrow> string option \<Rightarrow> config" where
  "createClient B lid s2 swid =
     (let cfg = \<lparr>leagueId = parseIntOf B lid, espnS2 = None, SWID = None\<rparr>
      in if \<not> falsy s2 \<and> \<not> falsy swid then cfg\<lparr>espnS2 := s2, SWID := swid\<rparr> else cfg)"

subsection \<open>The route handlers\<close>

text \<open>
  The \<open>try\<close>/\<open>catch\<close> every handler ends with: await the call; send the payload, or
  status 500 with the route's failure text and the error's message.
\<close>

definition tryFetch :: "client \<Rightarrow> config \<Rightarrow> upcall \<Rightarrow> string \<Rightarrow> handled" where
  "tryFetch Client cfg call failure =
     (case Client cfg call of
        Inr payload \<Rightarrow> (\<lparr>status = 200, body = payload\<rparr>, [(cfg, call)])
      | Inl message \<Rightarrow>
          (\<lparr>status = 500,
            body = JObj [(''error'', JStr failure), (''message'', JStr message)]\<rparr>,
           [(cfg, call)]))"

definition badRequest :: "string \<Rightarrow> handled" where
  "badRequest msg = (\<lparr>status = 400, body = JObj [(''error'', JStr msg)]\<rparr>, [])"

definition clientOf :: "builtins \<Rightarrow> request \<Rightarrow> config" where
  "clientOf B req =
     createClient B (params req ''leagueId'') (headers req ''espnS2'') (headers req ''SWID'')"

definition leagueInfoHandler :: "builtins \<Rightarrow> client \<Rightarrow> request \<Rightarrow> handled" where
  "leagueInfoHandler B Client req =
     (let seasonId = query req ''seasonId''
      in if falsy seasonId then badRequest ''seasonId query parameter is required''
         else tryFetch Client (clientOf B req) (getLeagueInfo (parseIntOf B seasonId))
                ''Failed to fetch league information'')"

definition teamsHandler :: "builtins \<Rightarrow> client \<Rightarrow> request \<Rightarrow> handled" where
  "teamsHandler B Client req =
     (let seasonId = query req ''seasonId'';
          scoringPeriodId = query req ''scoringPeriodId''
      in if falsy seasonId \<or> falsy scoringPeriodId then
           badRequest ''seasonId and scoringPeriodId query parameters are required''
         else tryFetch Client (clientOf B req)
                (getTeamsAtWeek (parseIntOf B seasonId) (parseIntOf B scoringPeriodId))
                ''Failed to fetch teams'')"

definition boxscoresHandler :: "builtins \<Rightarrow> client \<Rightarrow> request \<Rightarrow> handled" where
  "boxscoresHandler B Client req =
     (let seasonId = query req ''seasonId'';
          matchupPeriodId = query req ''matchupPeriodId'';
          scoringPeriodId = query req ''scoringPeriodId''
      in if falsy seasonId \<or> falsy matchupPeriodId \<or> falsy scoringPeriodId then
           badRequest
             ''seasonId, matchupPeriodId, and scoringPeriodId query parameters are required''
         else tryFetch Client (clientOf B req)
                (getBoxscoreForWeek (parseIntOf B seasonId) (parseIntOf B matchupPeriodId)
                   (parseIntOf B scoringPeriodId))
                ''Failed to fetch boxscores'')"

definition freeAgentsHandler :: "builtins \<Rightarrow> client \<Rightarrow> request \<Rightarrow> handled" where
  "freeAgentsHandler B Client req =
     (let seasonId = query req ''seasonId'';
          scoringPeriodId = query req ''scoringPeriodId''
      in if falsy seasonId \<or> falsy scoringPeriodId then
           badRequest ''seasonId and scoringPeriodId query parameters are required''
         else tryFetch Client (clientOf B req)
                (getFreeAgents (parseIntOf B seasonId) (parseIntOf B scoringPeriodId))
                ''Failed to fetch free agents'')"

definition draftHandler :: "builtins \<Rightarrow> client \<Rightarrow> request \<Rightarrow> handled" where
  "draftHandler B Client req =
     (let seasonId = query req ''seasonId''
      in if falsy seasonId then badRequest ''seasonId query parameter is required''
         else tryFetch Client (clientOf B req) (getDraftInfo (parseIntOf B seasonId))
                ''Failed to fetch draft information'')"

definition nflGamesHandler :: "client \<Rightarrow> request \<Rightarrow> handled" where
  "nflGamesHandler Client req =
     (let startDate = query req ''startDate'';
          endDate = query req ''endDate''
      in if falsy startDate \<or> falsy endDate then
           badRequest
             ''startDate and endDate query parameters are required (format: YYYYMMDD)''
         else tryFetch Client \<lparr>leagueId = Some 0, espnS2 = None, SWID = None\<rparr>
                (getNFLGamesForPeriod startDate endDate)
                ''Failed to fetch NFL games'')"

subsection \<open>The routes\<close>

datatype endpoint =
  LeagueInfo
| Teams
| Boxscores
| FreeAgents
| Draft
| NflGames
| Health
| CacheClear

text \<open>
  The route table. \<open>now\<close> is the clock when the exchange starts (the middleware's
  lookup, or \<open>new Date()\<close> of the health route), \<open>now'\<close> the clock when a cached route's
  handler sends.
\<close>

fun app ::
  "builtins \<Rightarrow> client \<Rightarrow> endpoint \<Rightarrow> request \<Rightarrow> int \<Rightarrow> int \<Rightarrow> cache \<Rightarrow> exchange" where
  "app B Client LeagueInfo req now now' cache =
     cacheMiddleware CACHE_DURATION (leagueInfoHandler B Client) req now now' cache"
| "app B Client Teams req now now' cache =
     cacheMiddleware CACHE_DURATION (teamsHandler B Client) req now now' cache"
| "app B Client Boxscores req now now' cache =
     cacheMiddleware CACHE_DURATION (boxscoresHandler B Client) req now now' cache"
| "app B Client FreeAgents req now now' cache =
     cacheMiddleware CACHE_DURATION (freeAgentsHandler B Client) req now now' cache"
| "app B Client Draft req now now' cache =
     cacheMiddleware CACHE_DURATION (draftHandler B Client) req now now' cache"
| "app B Client NflGames req now now' cache =
     cacheMiddleware CACHE_DURATION (nflGamesHandler Client) req now now' cache"
| "app B Client Health req now now' cache =
     \<lparr>sent = \<lparr>status = 200,
              body = JObj [(''status'', JStr ''ok''),
                           (''timestamp'', JStr (toISOString B now))]\<rparr>,
      upstream = [], handlerRan = True, store = cache\<rparr>"
| "app B Client CacheClear req now now' cache =
     \<lparr>sent = \<lparr>status = 200, body = JObj [(''message'', JStr ''Cache cleared successfully'')]\<rparr>,
      upstream = [], handlerRan = True, store = Map.empty\<rparr>"

subsection \<open>Example inputs\<close>

text \<open>
  Concrete values on which the model is evaluated below: built-ins that agree with
  JavaScript on the strings used, a league-info request with given headers, the same
  request without its query string, an upstream that throws, an upstream that resolves,
  and a store right after a capture at time 0.
\<close>

definition exampleBuiltins :: builtins where
  "exampleBuiltins =
     \<lparr>parseInt = (\<lambda>s. if s = ''2024'' then Some 2024 else if s = ''100'' then Some 100 else None),
      toISOString = (\<lambda>t. ''1970-01-01T00:00:00.000Z'')\<rparr>"

definition infoRequest :: "(string \<rightharpoonup> string) \<Rightarrow> request" where
  "infoRequest hs =
     \<lparr>originalUrl = ''/api/league/100/info?seasonId=2024'',
      params = [''leagueId'' \<mapsto> ''100''],
      query = [''seasonId'' \<mapsto> ''2024''],
      headers = hs\<rparr>"

definition bareRequest :: request where
  "bareRequest =
     \<lparr>originalUrl = ''/api/league/100/info'',
      params = [''leagueId'' \<mapsto> ''100''],
      query = Map.empty,
      headers = Map.empty\<rparr>"

definition failing :: client where
  "failing = (\<lambda>cfg call. Inl ''Request failed with status code 401'')"

definition answering :: "json \<Rightarrow> client" where
  "answering p = (\<lambda>cfg call. Inr p)"

definition capturedStore :: cache where
  "capturedStore = patched_json ''/api/league/100/info?seasonId=2024'' (JStr ''X'') 0 Map.empty"

section \<open>Properties\<close>

subsection \<open>The two outcomes of the middleware\<close>

lemma cacheMiddleware_hit:
  assumes "cache (originalUrl req) = Some e" and "now - timestamp e < duration"
  shows "cacheMiddleware duration next req now now' cache =
           \<lparr>sent = \<lparr>status = 200, body = data e\<rparr>, upstream = [],
            handlerRan = False, store = cache\<rparr>"
  using assms by (simp add: cacheMiddleware_def)

lemma cacheMiddleware_miss:
  assumes "cache (originalUrl req) = None \<or>
           (\<exists>e. cache (originalUrl req) = Some e \<and> duration \<le> now - timestamp e)"
  shows "cacheMiddleware duration next req now now' cache =
           \<lparr>sent = fst (next req), upstream = snd (next req), handlerRan = True,
            store = cache(originalUrl req \<mapsto> \<lparr>data = body (fst (next req)), timestamp = now'\<rparr>)\<rparr>"
  using assms
  by (auto simp add: cacheMiddleware_def proceed_def patched_json_def split: prod.splits)

lemma app_cached:
  assumes "ep \<noteq> Health" and "ep \<noteq> CacheClear"
  shows "\<exists>h. \<forall>req now now' cache.
           app B Client ep req now now' cache = cacheMiddleware CACHE_DURATION h req now now' cache"
  using assms by (cases ep) auto

subsection \<open>The claims\<close>

text \<open>
  Claim C1 (a failed upstream call writes nothing to the store and the next request for
  the key is a miss). The server does not behave so. The handler's \<open>catch\<close> sends
  its 500 body through the installed \<open>res.json\<close>, which stores it: at the input below
  the error body is in the store under the request's key, stamped with the time of the
  write, and the next request for the key, within the duration, is answered from the
  store with status 200 and that error body; the handler does not run and the upstream,
  which would now succeed, is not called.
\<close>

theorem failed_fetch_is_cached_and_replayed:
  "sent (app exampleBuiltins failing LeagueInfo (infoRequest Map.empty) 0 1 Map.empty) =
     \<lparr>status = 500,
      body = JObj [(''error'', JStr ''Failed to fetch league information''),
                   (''message'', JStr ''Request failed with status code 401'')]\<rparr>
   \<and> store (app exampleBuiltins failing LeagueInfo (infoRequest Map.empty) 0 1 Map.empty)
       ''/api/league/100/info?seasonId=2024'' =
     Some \<lparr>data = JObj [(''error'', JStr ''Failed to fetch league information''),
                        (''message'', JStr ''Request failed with status code 401'')],
           timestamp = 1\<rparr>
   \<and> app exampleBuiltins (answering (JStr ''X'')) LeagueInfo (infoRequest Map.empty) 2 3
       (store (app exampleBuiltins failing LeagueInfo (infoRequest Map.empty) 0 1 Map.empty)) =
     \<lparr>sent = \<lparr>status = 200,
              body = JObj [(''error'', JStr ''Failed to fetch league information''),
                           (''message'', JStr ''Request failed with status code 401'')]\<rparr>,
      upstream = [], handlerRan = False,
      store = store (app exampleBuiltins failing LeagueInfo (infoRequest Map.empty) 0 1 Map.empty)\<rparr>"
  by (simp add: cacheMiddleware_def proceed_def patched_json_def infoRequest_def
        leagueInfoHandler_def tryFetch_def failing_def falsy_def CACHE_DURATION_def Let_def)

text \<open>
  Claim C2 (a request without a required query parameter ends with status 400 and a
  fixed message, calls no upstream and does not write the store). At the input below the
  first two parts hold and the third does not: the reply is 400 with the fixed message
  and no upstream call is made, but the 400 body went through the installed
  \<open>res.json\<close> and is in the store under the request's key.
\<close>

theorem missing_parameter_reply_is_cached:
  "sent (app exampleBuiltins (answering (JStr ''X'')) LeagueInfo bareRequest 0 1 Map.empty) =
     \<lparr>status = 400, body = JObj [(''error'', JStr ''seasonId query parameter is required'')]\<rparr>
   \<and> upstream (app exampleBuiltins (answering (JStr ''X'')) LeagueInfo bareRequest 0 1 Map.empty) = []
   \<and> store (app exampleBuiltins (answering (JStr ''X'')) LeagueInfo bareRequest 0 1 Map.empty)
       ''/api/league/100/info'' =
     Some \<lparr>data = JObj [(''error'', JStr ''seasonId query parameter is required'')],
           timestamp = 1\<rparr>"
  by (simp add: cacheMiddleware_def proceed_def patched_json_def bareRequest_def
        leagueInfoHandler_def badRequest_def falsy_def Let_def)

text \<open>
  Claim C3. If the store holds for the request's key the payload \<open>p\<close> captured at time
  \<open>t\<close>, then a request for that key at a time \<open>t'\<close> with \<open>t' - t < duration\<close> is
  answered with exactly \<open>p\<close> (status 200), whatever the handler is: the handler does
  not run and no upstream call is made.
\<close>

theorem fresh_hit_returns_stored_payload:
  assumes "cache (originalUrl req) = Some \<lparr>data = p, timestamp = t\<rparr>"
    and "t' - t < duration"
  shows "sent (cacheMiddleware duration next req t' t'' cache) = \<lparr>status = 200, body = p\<rparr>
       \<and> \<not> handlerRan (cacheMiddleware duration next req t' t'' cache)
       \<and> upstream (cacheMiddleware duration next req t' t'' cache) = []"
  using assms by (simp add: cacheMiddleware_hit)

theorem fresh_hit_returns_stored_payload_witness:
  "capturedStore (originalUrl (infoRequest Map.empty)) = Some \<lparr>data = JStr ''X'', timestamp = 0\<rparr>
   \<and> (300000::int) - 0 < CACHE_DURATION
   \<and> sent (cacheMiddleware CACHE_DURATION (leagueInfoHandler exampleBuiltins (answering (JStr ''Y'')))
         (infoRequest Map.empty) 300000 300001 capturedStore)
       = \<lparr>status = 200, body = JStr ''X''\<rparr>
   \<and> \<not> handlerRan (cacheMiddleware CACHE_DURATION (leagueInfoHandler exampleBuiltins (answering (JStr ''Y'')))
         (infoRequest Map.empty) 300000 300001 capturedStore)
   \<and> upstream (cacheMiddleware CACHE_DURATION (leagueInfoHandler exampleBuiltins (answering (JStr ''Y'')))
         (infoRequest Map.empty) 300000 300001 capturedStore) = []"
  using fresh_hit_returns_stored_payload
    [of capturedStore "infoRequest Map.empty" "JStr ''X''" 0 300000 CACHE_DURATION
        "leagueInfoHandler exampleBuiltins (answering (JStr ''Y''))" 300001]
  by (simp add: capturedStore_def patched_json_def infoRequest_def CACHE_DURATION_def)

text \<open>
  Claim C4. If the store has no entry for the request's key, or the entry's age
  \<open>now - timestamp\<close> is at least the duration, the middleware does not answer from the
  store: the handler runs, and the response and the upstream calls of the exchange are
  the handler's.
\<close>

theorem miss_or_stale_runs_handler:
  assumes "cache (originalUrl req) = None \<or>
           (\<exists>e. cache (originalUrl req) = Some e \<and> duration \<le> now - timestamp e)"
  shows "handlerRan (cacheMiddleware duration next req now now' cache)
       \<and> sent (cacheMiddleware duration next req now now' cache) = fst (next req)
       \<and> upstream (cacheMiddleware duration next req now now' cache) = snd (next req)"
  using assms by (simp add: cacheMiddleware_miss)

theorem miss_or_stale_runs_handler_witness:
  "(capturedStore (originalUrl (infoRequest Map.empty)) = None \<or>
    (\<exists>e. capturedStore (originalUrl (infoRequest Map.empty)) = Some e
         \<and> CACHE_DURATION \<le> 650000 - timestamp e))
   \<and> handlerRan (cacheMiddleware CACHE_DURATION (leagueInfoHandler exampleBuiltins (answering (JStr ''Y'')))
         (infoRequest Map.empty) 650000 650001 capturedStore)
   \<and> sent (cacheMiddleware CACHE_DURATION (leagueInfoHandler exampleBuiltins (answering (JStr ''Y'')))
         (infoRequest Map.empty) 650000 650001 capturedStore)
       = \<lparr>status = 200, body = JStr ''Y''\<rparr>
   \<and> upstream (cacheMiddleware CACHE_DURATION (leagueInfoHandler exampleBuiltins (answering (JStr ''Y'')))
         (infoRequest Map.empty) 650000 650001 capturedStore)
       = [(\<lparr>leagueId = Some 100, espnS2 = None, SWID = None\<rparr>, getLeagueInfo (Some 2024))]"
  using miss_or_stale_runs_handler
    [of capturedStore "infoRequest Map.empty" CACHE_DURATION 650000
        "leagueInfoHandler exampleBuiltins (answering (JStr ''Y''))" 650001]
  by (simp add: capturedStore_def patched_json_def infoRequest_def CACHE_DURATION_def
        leagueInfoHandler_def tryFetch_def answering_def clientOf_def createClient_def
        parseIntOf_def falsy_def exampleBuiltins_def)

text \<open>
  Claim C5. Two requests to a cached route with the same \<open>originalUrl\<close> use the same
  key, whatever their headers: when the first is a miss whose reply is captured at
  \<open>t1'\<close> and the second arrives at \<open>t2\<close> with \<open>t2 - t1' < CACHE_DURATION\<close>, the second
  is answered with the body sent to the first, its handler does not run and no upstream
  call is made for it. Nothing is assumed about the headers of either request.
\<close>

theorem credentials_not_part_of_key:
  assumes "originalUrl r2 = originalUrl r1"
    and "ep \<noteq> Health" and "ep \<noteq> CacheClear"
    and "cache (originalUrl r1) = None \<or>
         (\<exists>e. cache (originalUrl r1) = Some e \<and> CACHE_DURATION \<le> t1 - timestamp e)"
    and "t2 - t1' < CACHE_DURATION"
  shows "sent (app B Client2 ep r2 t2 t2' (store (app B Client1 ep r1 t1 t1' cache))) =
           \<lparr>status = 200, body = body (sent (app B Client1 ep r1 t1 t1' cache))\<rparr>
       \<and> \<not> handlerRan (app B Client2 ep r2 t2 t2' (store (app B Client1 ep r1 t1 t1' cache)))
       \<and> upstream (app B Client2 ep r2 t2 t2' (store (app B Client1 ep r1 t1 t1' cache))) = []"
proof -
  obtain h1 where h1: "\<And>req now now' c.
      app B Client1 ep req now now' c = cacheMiddleware CACHE_DURATION h1 req now now' c"
    using app_cached [OF assms(2,3)] by blast
  obtain h2 where h2: "\<And>req now now' c.
      app B Client2 ep req now now' c = cacheMiddleware CACHE_DURATION h2 req now now' c"
    using app_cached [OF assms(2,3)] by blast
  let ?x = "app B Client1 ep r1 t1 t1' cache"
  have x: "?x = \<lparr>sent = fst (h1 r1), upstream = snd (h1 r1), handlerRan = True,
             store = cache(originalUrl r1 \<mapsto> \<lparr>data = body (fst (h1 r1)), timestamp = t1'\<rparr>)\<rparr>"
    unfolding h1 using assms(4) by (rule cacheMiddleware_miss)
  have e: "store ?x (originalUrl r2) = Some \<lparr>data = body (sent ?x), timestamp = t1'\<rparr>"
    by (simp add: x assms(1))
  have "app B Client2 ep r2 t2 t2' (store ?x) =
          \<lparr>sent = \<lparr>status = 200, body = body (sent ?x)\<rparr>, upstream = [],
           handlerRan = False, store = store ?x\<rparr>"
    unfolding h2 using e assms(5) by (intro cacheMiddleware_hit [where e = "\<lparr>data = body (sent ?x), timestamp = t1'\<rparr>", simplified]) simp_all
  then show ?thesis by simp
qed


theorem credentials_not_part_of_key_witness:
  "originalUrl (infoRequest Map.empty) =
     originalUrl (infoRequest [''espnS2'' \<mapsto> ''AEB'', ''SWID'' \<mapsto> ''{1}''])
   \<and> LeagueInfo \<noteq> Health \<and> LeagueInfo \<noteq> CacheClear
   \<and> ((Map.empty :: cache) (originalUrl (infoRequest [''espnS2'' \<mapsto> ''AEB'', ''SWID'' \<mapsto> ''{1}''])) = None \<or>
       (\<exists>e. (Map.empty :: cache) (originalUrl (infoRequest [''espnS2'' \<mapsto> ''AEB'', ''SWID'' \<mapsto> ''{1}''])) = Some e
            \<and> CACHE_DURATION \<le> 0 - timestamp e))
   \<and> (300000::int) - 1 < CACHE_DURATION
   \<and> upstream (app exampleBuiltins (answering (JStr ''private'')) LeagueInfo
         (infoRequest [''espnS2'' \<mapsto> ''AEB'', ''SWID'' \<mapsto> ''{1}'']) 0 1 Map.empty)
       = [(\<lparr>leagueId = Some 100, espnS2 = Some ''AEB'', SWID = Some ''{1}''\<rparr>,
           getLeagueInfo (Some 2024))]
   \<and> sent (app exampleBuiltins failing LeagueInfo (infoRequest Map.empty) 300000 300001
         (store (app exampleBuiltins (answering (JStr ''private'')) LeagueInfo
            (infoRequest [''espnS2'' \<mapsto> ''AEB'', ''SWID'' \<mapsto> ''{1}'']) 0 1 Map.empty)))
       = \<lparr>status = 200, body = JStr ''private''\<rparr>
   \<and> \<not> handlerRan (app exampleBuiltins failing LeagueInfo (infoRequest Map.empty) 300000 300001
         (store (app exampleBuiltins (answering (JStr ''private'')) LeagueInfo
            (infoRequest [''espnS2'' \<mapsto> ''AEB'', ''SWID'' \<mapsto> ''{1}'']) 0 1 Map.empty)))
   \<and> upstream (app exampleBuiltins failing LeagueInfo (infoRequest Map.empty) 300000 300001
         (store (app exampleBuiltins (answering (JStr ''private'')) LeagueInfo
            (infoRequest [''espnS2'' \<mapsto> ''AEB'', ''SWID'' \<mapsto> ''{1}'']) 0 1 Map.empty))) = []"
proof -
  have b: "body (sent (app exampleBuiltins (answering (JStr ''private'')) LeagueInfo
         (infoRequest [''espnS2'' \<mapsto> ''AEB'', ''SWID'' \<mapsto> ''{1}'']) 0 1 Map.empty)) = JStr ''private''"
    by (simp add: cacheMiddleware_def proceed_def infoRequest_def leagueInfoHandler_def
          tryFetch_def answering_def falsy_def Let_def)
  have u: "upstream (app exampleBuiltins (answering (JStr ''private'')) LeagueInfo
         (infoRequest [''espnS2'' \<mapsto> ''AEB'', ''SWID'' \<mapsto> ''{1}'']) 0 1 Map.empty)
       = [(\<lparr>leagueId = Some 100, espnS2 = Some ''AEB'', SWID = Some ''{1}''\<rparr>,
           getLeagueInfo (Some 2024))]"
    by (simp add: cacheMiddleware_def proceed_def infoRequest_def leagueInfoHandler_def
          tryFetch_def answering_def falsy_def clientOf_def createClient_def parseIntOf_def
          exampleBuiltins_def Let_def)
  show ?thesis
    using credentials_not_part_of_key
      [of "infoRequest Map.empty" "infoRequest [''espnS2'' \<mapsto> ''AEB'', ''SWID'' \<mapsto> ''{1}'']"
          LeagueInfo Map.empty 0 300000 1 exampleBuiltins failing 300001
          "answering (JStr ''private'')"]
    by (simp only: b u) (simp add: infoRequest_def CACHE_DURATION_def)
qed

text \<open>
  Claim C6. The cache-clear route always answers with status 200 and its message and
  leaves the store empty, whatever it held; any request served on that store, at any
  time, runs its handler instead of being answered from the store.
\<close>

theorem cache_clear_empties_store:
  "sent (app B Client CacheClear req now now' cache) =
      \<lparr>status = 200, body = JObj [(''message'', JStr ''Cache cleared successfully'')]\<rparr>
   \<and> store (app B Client CacheClear req now now' cache) = Map.empty
   \<and> handlerRan (app B' Client' ep req' t t' (store (app B Client CacheClear req now now' cache)))"
  by (cases ep) (simp_all add: cacheMiddleware_def proceed_def split: prod.splits)

text \<open>
  Claim C7. On a miss the response of the exchange is the handler's response unchanged,
  and the store afterwards is the store before with the request's key mapped to the
  body just sent, stamped with the time of the write: a prior entry for the key is
  replaced and no other key changes.
\<close>

theorem miss_captures_and_forwards:
  assumes "cache (originalUrl req) = None \<or>
           (\<exists>e. cache (originalUrl req) = Some e \<and> duration \<le> now - timestamp e)"
  shows "sent (cacheMiddleware duration next req now now' cache) = fst (next req)
       \<and> store (cacheMiddleware duration next req now now' cache) =
           cache(originalUrl req \<mapsto> \<lparr>data = body (fst (next req)), timestamp = now'\<rparr>)"
  using assms by (simp add: cacheMiddleware_miss)

theorem miss_captures_and_forwards_witness:
  "(capturedStore (originalUrl (infoRequest Map.empty)) = None \<or>
    (\<exists>e. capturedStore (originalUrl (infoRequest Map.empty)) = Some e
         \<and> CACHE_DURATION \<le> 650000 - timestamp e))
   \<and> sent (cacheMiddleware CACHE_DURATION (leagueInfoHandler exampleBuiltins (answering (JStr ''Y'')))
         (infoRequest Map.empty) 650000 650001 capturedStore)
       = \<lparr>status = 200, body = JStr ''Y''\<rparr>
   \<and> store (cacheMiddleware CACHE_DURATION (leagueInfoHandler exampleBuiltins (answering (JStr ''Y'')))
         (infoRequest Map.empty) 650000 650001 capturedStore)
       = [''/api/league/100/info?seasonId=2024'' \<mapsto> \<lparr>data = JStr ''Y'', timestamp = 650001\<rparr>]"
  using miss_captures_and_forwards
    [of capturedStore "infoRequest Map.empty" CACHE_DURATION 650000
        "leagueInfoHandler exampleBuiltins (answering (JStr ''Y''))" 650001]
  by (simp add: capturedStore_def patched_json_def infoRequest_def CACHE_DURATION_def
        leagueInfoHandler_def tryFetch_def answering_def clientOf_def createClient_def
        parseIntOf_def falsy_def exampleBuiltins_def)

text \<open>
  Claim C8. The health route always answers with status 200, the status value \<open>ok\<close>
  and the formatted current time; it makes no upstream call and returns the store as it
  was.
\<close>

theorem health_reports_and_touches_nothing:
  "app B Client Health req now now' cache =
     \<lparr>sent = \<lparr>status = 200,
              body = JObj [(''status'', JStr ''ok''), (''timestamp'', JStr (toISOString B now))]\<rparr>,
      upstream = [], handlerRan = True, store = cache\<rparr>"
  by simp

text \<open>
  Claim C9. When exactly one of the two credential headers of a request is set (the
  other missing or empty), \<open>createClient\<close> builds a configuration with neither
  credential, and every upstream call of an exchange for that request, on any route,
  is made with a configuration without credentials. In general the configuration is
  without credentials exactly when one of the two values is missing or empty.
\<close>

theorem one_credential_is_public_request:
  assumes "falsy (headers req ''espnS2'') \<noteq> falsy (headers req ''SWID'')"
  shows "createClient B lid (headers req ''espnS2'') (headers req ''SWID'') =
           \<lparr>leagueId = parseIntOf B lid, espnS2 = None, SWID = None\<rparr>
       \<and> list_all (\<lambda>(cfg, call). espnS2 cfg = None \<and> SWID cfg = None)
           (upstream (app B Client ep req now now' cache))
       \<and> ((espnS2 (createClient B lid s2 swid) = None \<and> SWID (createClient B lid s2 swid) = None)
            = (falsy s2 \<or> falsy swid))"
proof -
  have c: "createClient B lid (headers req ''espnS2'') (headers req ''SWID'') =
           \<lparr>leagueId = parseIntOf B lid, espnS2 = None, SWID = None\<rparr>" for lid
    using assms by (auto simp add: createClient_def)
  have t: "list_all (\<lambda>(cfg, call). espnS2 cfg = None \<and> SWID cfg = None)
             (snd (tryFetch Client cfg call failure))"
    if "espnS2 cfg = None" and "SWID cfg = None" for cfg call failure
    using that by (simp add: tryFetch_def split: sum.splits)
  have m: "list_all (\<lambda>(cfg, call). espnS2 cfg = None \<and> SWID cfg = None)
             (upstream (cacheMiddleware d h req now now' cache))"
    if "list_all (\<lambda>(cfg, call). espnS2 cfg = None \<and> SWID cfg = None) (snd (h req))" for d h
    using that by (auto simp add: cacheMiddleware_def proceed_def Let_def split: option.splits prod.splits)
  have k: "espnS2 (clientOf B req) = None \<and> SWID (clientOf B req) = None"
    by (simp add: clientOf_def c)
  have a: "list_all (\<lambda>(cfg, call). espnS2 cfg = None \<and> SWID cfg = None)
           (upstream (app B Client ep req now now' cache))"
  proof (cases ep)
    case LeagueInfo
    then show ?thesis by (simp add: m leagueInfoHandler_def badRequest_def t k Let_def)
  next
    case Teams
    then show ?thesis by (simp add: m teamsHandler_def badRequest_def t k Let_def)
  next
    case Boxscores
    then show ?thesis by (simp add: m boxscoresHandler_def badRequest_def t k Let_def)
  next
    case FreeAgents
    then show ?thesis by (simp add: m freeAgentsHandler_def badRequest_def t k Let_def)
  next
    case Draft
    then show ?thesis by (simp add: m draftHandler_def badRequest_def t k Let_def)
  next
    case NflGames
    then show ?thesis by (simp add: m nflGamesHandler_def badRequest_def t Let_def)
  next
    case Health
    then show ?thesis by simp
  next
    case CacheClear
    then show ?thesis by simp
  qed
  have g: "(espnS2 (createClient B lid s2 swid) = None \<and> SWID (createClient B lid s2 swid) = None)
            = (falsy s2 \<or> falsy swid)"
    by (auto simp add: createClient_def falsy_def Let_def split: option.splits)
  show ?thesis using c a g by blast
qed

theorem one_credential_is_public_request_witness:
  "falsy (headers (infoRequest [''espnS2'' \<mapsto> ''AEB'']) ''espnS2'')
     \<noteq> falsy (headers (infoRequest [''espnS2'' \<mapsto> ''AEB'']) ''SWID'')
   \<and> createClient exampleBuiltins (Some ''100'')
        (headers (infoRequest [''espnS2'' \<mapsto> ''AEB'']) ''espnS2'')
        (headers (infoRequest [''espnS2'' \<mapsto> ''AEB'']) ''SWID'')
       = \<lparr>leagueId = Some 100, espnS2 = None, SWID = None\<rparr>
   \<and> upstream (app exampleBuiltins (answering (JStr ''public'')) LeagueInfo
         (infoRequest [''espnS2'' \<mapsto> ''AEB'']) 0 1 Map.empty)
       = [(\<lparr>leagueId = Some 100, espnS2 = None, SWID = None\<rparr>, getLeagueInfo (Some 2024))]
   \<and> list_all (\<lambda>(cfg, call). espnS2 cfg = None \<and> SWID cfg = None)
         (upstream (app exampleBuiltins (answering (JStr ''public'')) LeagueInfo
            (infoRequest [''espnS2'' \<mapsto> ''AEB'']) 0 1 Map.empty))"
proof -
  have u: "upstream (app exampleBuiltins (answering (JStr ''public'')) LeagueInfo
         (infoRequest [''espnS2'' \<mapsto> ''AEB'']) 0 1 Map.empty)
       = [(\<lparr>leagueId = Some 100, espnS2 = None, SWID = None\<rparr>, getLeagueInfo (Some 2024))]"
    by (simp add: cacheMiddleware_def proceed_def infoRequest_def leagueInfoHandler_def
          tryFetch_def answering_def falsy_def clientOf_def createClient_def parseIntOf_def
          exampleBuiltins_def Let_def)
  have p: "parseIntOf exampleBuiltins (Some ''100'') = Some 100"
    by (simp add: parseIntOf_def exampleBuiltins_def)
  have f: "falsy (headers (infoRequest [''espnS2'' \<mapsto> ''AEB'']) ''espnS2'')
     \<noteq> falsy (headers (infoRequest [''espnS2'' \<mapsto> ''AEB'']) ''SWID'')"
    by (simp add: infoRequest_def falsy_def)
  show ?thesis
    using one_credential_is_public_request
      [of "infoRequest [''espnS2'' \<mapsto> ''AEB'']" exampleBuiltins "Some ''100''"
          "answering (JStr ''public'')" LeagueInfo 0 1 Map.empty None None, OF f]
    by (simp only: u p f) simp
qed

text \<open>
  Claim C10. Answering from the store leaves the store as it was: no key is added,
  removed or overwritten, and the entry that was served keeps its timestamp.
\<close>

theorem hit_leaves_store_unchanged:
  assumes "cache (originalUrl req) = Some e"
    and "now - timestamp e < duration"
  shows "store (cacheMiddleware duration next req now now' cache) = cache
       \<and> store (cacheMiddleware duration next req now now' cache) (originalUrl req) = Some e"
  using assms by (simp add: cacheMiddleware_hit)

theorem hit_leaves_store_unchanged_witness:
  "capturedStore (originalUrl (infoRequest Map.empty)) = Some \<lparr>data = JStr ''X'', timestamp = 0\<rparr>
   \<and> 300000 - timestamp \<lparr>data = JStr ''X'', timestamp = 0\<rparr> < CACHE_DURATION
   \<and> store (cacheMiddleware CACHE_DURATION (leagueInfoHandler exampleBuiltins (answering (JStr ''Y'')))
         (infoRequest Map.empty) 300000 300001 capturedStore) = capturedStore
   \<and> store (cacheMiddleware CACHE_DURATION (leagueInfoHandler exampleBuiltins (answering (JStr ''Y'')))
         (infoRequest Map.empty) 300000 300001 capturedStore) (originalUrl (infoRequest Map.empty))
       = Some \<lparr>data = JStr ''X'', timestamp = 0\<rparr>"
  using hit_leaves_store_unchanged
    [of capturedStore "infoRequest Map.empty" "\<lparr>data = JStr ''X'', timestamp = 0\<rparr>" 300000
        CACHE_DURATION "leagueInfoHandler exampleBuiltins (answering (JStr ''Y''))" 300001]
  by (simp add: capturedStore_def patched_json_def infoRequest_def CACHE_DURATION_def)

end
